theory Spec2Isabelle
  imports Main
begin

section \<open>Viewport and offset geometry\<close>

text \<open>
  A DOM element as the geometry helpers of \<^verbatim>\<open>fossen.js\<close> read it: its own layout
  numbers and its \<^verbatim>\<open>offsetParent\<close>, which is \<^verbatim>\<open>null\<close> at the end of the chain. The
  chain is finite, so it is a datatype. \<open>nid\<close> is the identity of the element object.
\<close>

record node =
  nid :: nat
  offsetLeft :: int
  offsetTop :: int
  offsetWidth :: int
  offsetHeight :: int
  scrollLeft :: int
  scrollTop :: int
  scrollHeight :: int

datatype element = Element (props: node) (offsetParent: "element option")

text \<open>What the code reads of \<^verbatim>\<open>document\<close>: the client size of \<^verbatim>\<open>document.documentElement\<close>
  and \<^verbatim>\<open>document.body\<close>.\<close>

record document =
  clientWidth :: int
  clientHeight :: int
  body :: element

text \<open>The object returned by \<^verbatim>\<open>offset\<close>; \<open>pageLeft\<close> and \<open>pageTop\<close> are its fields
  \<^verbatim>\<open>left\<close> and \<^verbatim>\<open>top\<close>, \<open>elOffsetLeft\<close> and \<open>elOffsetTop\<close> its fields \<^verbatim>\<open>offsetLeft\<close>
  and \<^verbatim>\<open>offsetTop\<close>.\<close>

record offsets =
  pageLeft :: int
  pageTop :: int
  elOffsetLeft :: int
  elOffsetTop :: int
  windowLeft :: int
  windowTop :: int
  width :: int
  height :: int

text \<open>The loop \<^verbatim>\<open>while (offsetParent = offsetParent.offsetParent)\<close> of \<^verbatim>\<open>offset\<close>, with
  the four accumulators \<^verbatim>\<open>left\<close>, \<^verbatim>\<open>top\<close>, \<^verbatim>\<open>scrollLeft\<close>, \<^verbatim>\<open>scrollTop\<close>.\<close>

fun offset_loop :: "element option \<Rightarrow> int \<times> int \<times> int \<times> int \<Rightarrow> int \<times> int \<times> int \<times> int" where
  "offset_loop None acc = acc"
| "offset_loop (Some (Element p parent)) (l, t, sl, st) =
     offset_loop parent
       (l + offsetLeft p, t + offsetTop p, sl - scrollLeft p, st - (scrollTop p - offsetTop p))"

definition offset :: "element \<Rightarrow> offsets" where
  "offset el =
     (case offset_loop (offsetParent el)
             (offsetLeft (props el), offsetTop (props el),
              offsetLeft (props el), offsetTop (props el)) of
        (l, t, sl, st) \<Rightarrow>
          \<lparr>pageLeft = l, pageTop = t,
           elOffsetLeft = offsetLeft (props el), elOffsetTop = offsetTop (props el),
           windowLeft = sl, windowTop = st,
           width = offsetWidth (props el), height = offsetHeight (props el)\<rparr>)"

fun findClosestScrollable_loop :: "element option \<Rightarrow> element option" where
  "findClosestScrollable_loop None = None"
| "findClosestScrollable_loop (Some (Element p parent)) =
     (if scrollHeight p > offsetHeight p then Some (Element p parent)
      else findClosestScrollable_loop parent)"

definition findClosestScrollableOffsetParent :: "element \<Rightarrow> element option" where
  "findClosestScrollableOffsetParent el = findClosestScrollable_loop (offsetParent el)"

text \<open>\<^verbatim>\<open>isOutOfView(el, partially)\<close>: the chain of early returns, in the order of the
  source. \<open>partially\<close> is the truthiness of the optional second argument.\<close>

definition isOutOfView :: "document \<Rightarrow> element \<Rightarrow> bool \<Rightarrow> bool" where
  "isOutOfView doc el partially =
     (let elOffset = offset el in
      if windowTop elOffset > clientHeight doc then True
      else if windowLeft elOffset > clientWidth doc then True
      else if windowTop elOffset + height elOffset < 0 then True
      else if windowLeft elOffset + width elOffset < 0 then True
      else if partially then
        (if windowTop elOffset + height elOffset > clientHeight doc \<or> windowTop elOffset < 0
         then True
         else if windowLeft elOffset + width elOffset > clientWidth doc \<or> windowLeft elOffset < 0
         then True
         else False)
      else False)"

text \<open>
  \<^verbatim>\<open>scrollY(el, padding, scrollElement)\<close>. Its one effect is the assignment
  \<^verbatim>\<open>scrollElement.scrollTop = scrollTo\<close>; the model returns the element assigned to and
  the value, or \<open>None\<close> when the function returns before assigning. \<open>padding\<close> is
  \<open>None\<close> for an omitted argument (\<^verbatim>\<open>padding || 0\<close>; a padding of 0 stays 0), and
  \<open>scrollElement\<close> is \<open>None\<close> for an omitted third argument.
\<close>

definition scrollY :: "document \<Rightarrow> element \<Rightarrow> int option \<Rightarrow> element option \<Rightarrow> (element \<times> int) option" where
  "scrollY doc el padding scrollElement =
     (if \<not> isOutOfView doc el True then None
      else
        let elOffset = offset el;
            isPartiallyBelow = (windowTop elOffset + height elOffset > clientHeight doc);
            padding1 = (case padding of None \<Rightarrow> 0 | Some p \<Rightarrow> p);
            scrollElement1 = (case findClosestScrollableOffsetParent el of
                                Some p \<Rightarrow> p | None \<Rightarrow> body doc);
            scrollTo = (if isPartiallyBelow
                        then ((elOffsetTop elOffset - clientHeight doc) + height elOffset) + padding1
                        else offsetTop (props el) - padding1)
        in Some (scrollElement1, scrollTo))"

text \<open>The \<^verbatim>\<open>scrollTop\<close> of an element after a call of \<^verbatim>\<open>scrollY\<close> with the given effect:
  the assigned value for the element assigned to, its old value for every other one.\<close>

definition scrollTop_after :: "(element \<times> int) option \<Rightarrow> element \<Rightarrow> int" where
  "scrollTop_after eff e =
     (case eff of
        None \<Rightarrow> scrollTop (props e)
      | Some (target, v) \<Rightarrow> if nid (props e) = nid (props target) then v else scrollTop (props e))"

text \<open>The offset ancestors of an element, nearest first, and the scrollable ones among
  them, as the description of \<^verbatim>\<open>scrollY\<close> words it.\<close>

fun ancestors_from :: "element option \<Rightarrow> element list" where
  "ancestors_from None = []"
| "ancestors_from (Some (Element p parent)) = Element p parent # ancestors_from parent"

definition offsetAncestors :: "element \<Rightarrow> element list" where
  "offsetAncestors el = ancestors_from (offsetParent el)"

definition scrollable :: "element \<Rightarrow> bool" where
  "scrollable e = (scrollHeight (props e) > offsetHeight (props e))"

definition nearestScrollableOrBody :: "document \<Rightarrow> element \<Rightarrow> element" where
  "nearestScrollableOrBody doc el =
     (case List.find scrollable (offsetAncestors el) of Some p \<Rightarrow> p | None \<Rightarrow> body doc)"

text \<open>A page with a panel and an item placed 10 below the bottom edge of the viewport.\<close>

definition page :: element where
  "page = Element \<lparr>nid = 0, offsetLeft = 0, offsetTop = 0, offsetWidth = 800, offsetHeight = 600,
                   scrollLeft = 0, scrollTop = 0, scrollHeight = 2000\<rparr> None"

definition panel :: element where
  "panel = Element \<lparr>nid = 1, offsetLeft = 0, offsetTop = 100, offsetWidth = 800, offsetHeight = 300,
                    scrollLeft = 0, scrollTop = 0, scrollHeight = 300\<rparr> (Some page)"

definition low_item :: element where
  "low_item = Element \<lparr>nid = 2, offsetLeft = 0, offsetTop = 510, offsetWidth = 100, offsetHeight = 20,
                       scrollLeft = 0, scrollTop = 0, scrollHeight = 20\<rparr> (Some panel)"

definition viewport :: document where
  "viewport = \<lparr>clientWidth = 800, clientHeight = 600, body = page\<rparr>"

section \<open>concatUrls\<close>

datatype js_error = TypeError string | Error string

text \<open>An argument of \<^verbatim>\<open>concatUrls\<close>: a fragment string or an array of fragment strings.\<close>

datatype url_arg = Fragment string | Fragments "string list"

text \<open>White space as \<^verbatim>\<open>String.prototype.trim\<close> removes it, on the characters a
  \<open>char\<close> can hold: tab, line feed, vertical tab, form feed, carriage return, space and
  the no-break space.\<close>

definition js_space :: "char \<Rightarrow> bool" where
  "js_space c = (of_char c \<in> {9::nat, 10, 11, 12, 13, 32, 160})"

definition trim :: "string \<Rightarrow> string" where
  "trim s = rev (dropWhile js_space (rev (dropWhile js_space s)))"

text \<open>\<^verbatim>\<open>s[i]\<close>: the character at an index, \<^verbatim>\<open>undefined\<close> (here \<open>None\<close>) out of range.\<close>

definition char_at :: "string \<Rightarrow> int \<Rightarrow> char option" where
  "char_at s i = (if 0 \<le> i \<and> i < int (length s) then Some (s ! nat i) else None)"

text \<open>\<^verbatim>\<open>fragment + ''\<close> for an argument after the first: a string is itself, an array
  is its elements joined by commas.\<close>

fun join_comma :: "string list \<Rightarrow> string" where
  "join_comma [] = []"
| "join_comma [s] = s"
| "join_comma (s # t # ts) = s @ '','' @ join_comma (t # ts)"

fun arg_string :: "url_arg \<Rightarrow> string" where
  "arg_string (Fragment s) = s"
| "arg_string (Fragments fs) = join_comma fs"

fun arg_falsy :: "url_arg \<Rightarrow> bool" where
  "arg_falsy (Fragment s) = (s = [])"
| "arg_falsy (Fragments fs) = False"

text \<open>The body of the \<^verbatim>\<open>forEach\<close> callback: \<^verbatim>\<open>''.trim()\<close> binds tighter than
  \<^verbatim>\<open>+\<close>, so the fragment is not trimmed.\<close>

definition append_fragment :: "string \<Rightarrow> url_arg \<Rightarrow> string" where
  "append_fragment cString a =
     (if arg_falsy a then cString
      else
        let fragment = arg_string a @ trim [];
            fragment1 = (if char_at fragment 0 = Some CHR ''/'' then drop 1 fragment else fragment)
        in cString @ (if char_at fragment1 (int (length fragment1) - 1) = Some CHR ''/''
                      then fragment1 else fragment1 @ ''/''))"

definition concatUrls :: "url_arg list \<Rightarrow> js_error + string" where
  "concatUrls arguments =
     (let fragments = (case arguments of Fragments fs # rest \<Rightarrow> map Fragment fs | _ \<Rightarrow> arguments)
      in case fragments of
           [] \<Rightarrow> Inl (TypeError ''fragments[0] is undefined'')
         | Fragments fs # rest \<Rightarrow> Inl (TypeError ''fragments[0].trim is not a function'')
         | Fragment f0 # rest \<Rightarrow>
             let cString = (if char_at (trim f0) (int (length f0) - 1) = Some CHR ''/''
                            then trim f0 else trim f0 @ ''/'');
                 cString1 = foldl append_fragment cString rest
             in Inr (take (length cString1 - 1) cString1))"

section \<open>JavaScript values and plain objects\<close>

text \<open>
  The numbers of the model are the safe integers, those of magnitude below \<open>2^53\<close>: each
  is a number value of its own, and its string is its decimal digits. Larger numbers,
  fractions, \<^verbatim>\<open>NaN\<close> and the infinities are not values of the model. \<open>number n\<close> is the
  safe integer of a literal \<open>n\<close> in that range.
\<close>

typedef safe_integer = "{n :: int. - 9007199254740992 < n \<and> n < 9007199254740992}"
  morphisms integer_value Abs_safe_integer
  by (rule exI [of _ 0]) simp

setup_lifting type_definition_safe_integer

lift_definition number :: "int \<Rightarrow> safe_integer"
  is "\<lambda>n. if - 9007199254740992 < n \<and> n < 9007199254740992 then n else 0"
  by simp

text \<open>
  The values the collection helpers handle. An object (or function) is \<open>Obj i s\<close>: its
  identity \<open>i\<close> and the string \<open>s\<close> that its \<^verbatim>\<open>toString()\<close> returns.
\<close>

datatype jsval = Undefined | Null | Bool bool | Num safe_integer | Str string | Obj nat string

fun truthy :: "jsval \<Rightarrow> bool" where
  "truthy Undefined = False"
| "truthy Null = False"
| "truthy (Bool b) = b"
| "truthy (Num n) = (integer_value n \<noteq> 0)"
| "truthy (Str s) = (s \<noteq> [])"
| "truthy (Obj i s) = True"

fun decimal :: "nat \<Rightarrow> string" where
  "decimal n =
     (if n < 10 then [''0123456789'' ! n]
      else decimal (n div 10) @ [''0123456789'' ! (n mod 10)])"

declare decimal.simps [simp del]

text \<open>The string a value is coerced to when it is used as a property key, and the
  result of \<^verbatim>\<open>toString()\<close> on a value that has the method.\<close>

fun toString :: "jsval \<Rightarrow> string" where
  "toString Undefined = ''undefined''"
| "toString Null = ''null''"
| "toString (Bool b) = (if b then ''true'' else ''false'')"
| "toString (Num n) =
     (if integer_value n < 0 then ''-'' @ decimal (nat (- integer_value n))
      else decimal (nat (integer_value n)))"
| "toString (Str s) = s"
| "toString (Obj i s) = s"

text \<open>
  An object created by the literal \<^verbatim>\<open>{}\<close> is its own properties, a map from property
  names, and it inherits the properties of \<^verbatim>\<open>Object.prototype\<close>. The table below is the
  one of the ECMAScript standard, each method a function object; \<^verbatim>\<open>__proto__\<close> is the
  accessor that reads the prototype itself.
\<close>

type_synonym js_object = "string \<rightharpoonup> jsval"

definition Object_prototype :: "string \<rightharpoonup> jsval" where
  "Object_prototype =
     map_of
       [(''constructor'', Obj 1 ''function Object() { [native code] }''),
        (''toString'', Obj 2 ''function toString() { [native code] }''),
        (''toLocaleString'', Obj 3 ''function toLocaleString() { [native code] }''),
        (''valueOf'', Obj 4 ''function valueOf() { [native code] }''),
        (''hasOwnProperty'', Obj 5 ''function hasOwnProperty() { [native code] }''),
        (''isPrototypeOf'', Obj 6 ''function isPrototypeOf() { [native code] }''),
        (''propertyIsEnumerable'', Obj 7 ''function propertyIsEnumerable() { [native code] }''),
        (''__defineGetter__'', Obj 8 ''function __defineGetter__() { [native code] }''),
        (''__defineSetter__'', Obj 9 ''function __defineSetter__() { [native code] }''),
        (''__lookupGetter__'', Obj 10 ''function __lookupGetter__() { [native code] }''),
        (''__lookupSetter__'', Obj 11 ''function __lookupSetter__() { [native code] }''),
        (''__proto__'', Obj 0 ''[object Object]'')]"

text \<open>\<^verbatim>\<open>obj[key]\<close>: the own property, else the inherited one, else \<^verbatim>\<open>undefined\<close>.\<close>

definition js_get :: "js_object \<Rightarrow> string \<Rightarrow> jsval" where
  "js_get obj key =
     (case obj key of
        Some v \<Rightarrow> v
      | None \<Rightarrow> (case Object_prototype key of Some v \<Rightarrow> v | None \<Rightarrow> Undefined))"

text \<open>\<^verbatim>\<open>obj[key] = v\<close>: an own property is created or overwritten, except for the key
  \<^verbatim>\<open>__proto__\<close>, whose inherited setter creates no own property (and ignores a value
  that is neither an object nor \<^verbatim>\<open>null\<close>).\<close>

definition js_put :: "js_object \<Rightarrow> string \<Rightarrow> jsval \<Rightarrow> js_object" where
  "js_put obj key v = (if key = ''__proto__'' then obj else obj(key \<mapsto> v))"

text \<open>\<^verbatim>\<open>obj.hasOwnProperty(key)\<close>: the method is looked up on the object first, so an own
  property named \<^verbatim>\<open>hasOwnProperty\<close> shadows the inherited method; its value is called
  and, not being a function, raises a \<^verbatim>\<open>TypeError\<close>.\<close>

definition js_call_hasOwnProperty :: "js_object \<Rightarrow> string \<Rightarrow> js_error + bool" where
  "js_call_hasOwnProperty obj key =
     (case obj ''hasOwnProperty'' of
        Some v \<Rightarrow> Inl (TypeError ''cache.hasOwnProperty is not a function'')
      | None \<Rightarrow> Inr (obj key \<noteq> None))"

section \<open>unique\<close>

text \<open>The \<^verbatim>\<open>forEach\<close> of \<^verbatim>\<open>unique\<close>, with its two variables \<^verbatim>\<open>cache\<close> and
  \<^verbatim>\<open>uniqueArray\<close>; an exception ends it.\<close>

fun unique_loop :: "js_object \<Rightarrow> jsval list \<Rightarrow> jsval list \<Rightarrow> js_error + jsval list" where
  "unique_loop cache uniqueArray [] = Inr uniqueArray"
| "unique_loop cache uniqueArray (val # rest) =
     (case js_call_hasOwnProperty cache (toString val) of
        Inl e \<Rightarrow> Inl e
      | Inr True \<Rightarrow> unique_loop cache uniqueArray rest
      | Inr False \<Rightarrow>
          unique_loop (js_put cache (toString val) (Bool True)) (uniqueArray @ [val]) rest)"

definition unique :: "jsval list \<Rightarrow> js_error + jsval list" where
  "unique arr = unique_loop Map.empty [] arr"

text \<open>The elements of an array whose string-coerced key no earlier element has, in
  input order: the first occurrence of each key.\<close>

definition first_occurrences :: "jsval list \<Rightarrow> jsval list" where
  "first_occurrences arr =
     map (\<lambda>i. arr ! i)
       (filter (\<lambda>i. toString (arr ! i) \<notin> toString ` set (take i arr)) [0..<length arr])"

section \<open>memoize\<close>

text \<open>
  The function given to \<^verbatim>\<open>memoize\<close> takes a receiver and an argument list; it may have
  a state of its own (\<open>'s\<close>) and may raise. The closure returned by \<^verbatim>\<open>memoize\<close> owns
  \<^verbatim>\<open>cache\<close>, \<^verbatim>\<open>undefinedResult\<close> and \<^verbatim>\<open>nullResult\<close>; \<open>invocations\<close> records each
  call of the underlying function.
\<close>

type_synonym 's js_function = "jsval \<Rightarrow> jsval list \<Rightarrow> 's \<Rightarrow> (js_error + jsval) \<times> 's"

record 's memo =
  cache :: js_object
  undefinedResult :: jsval
  nullResult :: jsval
  funcState :: 's
  invocations :: "(jsval \<times> jsval list) list"

definition memoize :: "'s \<Rightarrow> 's memo" where
  "memoize s0 =
     \<lparr>cache = Map.empty, undefinedResult = Undefined, nullResult = Undefined,
      funcState = s0, invocations = []\<rparr>"

text \<open>\<^verbatim>\<open>func.apply(this, pub.toArray(arguments))\<close>.\<close>

definition apply_func :: "'s js_function \<Rightarrow> jsval \<Rightarrow> jsval list \<Rightarrow> 's memo \<Rightarrow> (js_error + jsval) \<times> 's memo" where
  "apply_func func this arguments m =
     (case func this arguments (funcState m) of
        (r, s) \<Rightarrow> (r, m\<lparr>funcState := s, invocations := invocations m @ [(this, arguments)]\<rparr>))"

text \<open>The parameter \<^verbatim>\<open>keyArg\<close> of a call: the first argument, \<^verbatim>\<open>undefined\<close> when
  there is none.\<close>

definition first_argument :: "jsval list \<Rightarrow> jsval" where
  "first_argument arguments = (case arguments of [] \<Rightarrow> Undefined | k # rest \<Rightarrow> k)"

text \<open>One call of the memoized function with receiver \<open>this\<close> and the given arguments.\<close>

definition memoized :: "'s js_function \<Rightarrow> jsval \<Rightarrow> jsval list \<Rightarrow> 's memo \<Rightarrow> (js_error + jsval) \<times> 's memo" where
  "memoized func this arguments m =
     (let keyArg = first_argument arguments in
      if keyArg = Undefined then
        (if undefinedResult m \<noteq> Undefined then (Inr (undefinedResult m), m)
         else case apply_func func this arguments m of
                (Inl e, m1) \<Rightarrow> (Inl e, m1)
              | (Inr v, m1) \<Rightarrow> (Inr v, m1\<lparr>undefinedResult := v\<rparr>))
      else if keyArg = Null then
        (if nullResult m \<noteq> Undefined then (Inr (nullResult m), m)
         else case apply_func func this arguments m of
                (Inl e, m1) \<Rightarrow> (Inl e, m1)
              | (Inr v, m1) \<Rightarrow> (Inr v, m1\<lparr>nullResult := v\<rparr>))
      else
        let keyArgString = toString keyArg in
        if truthy (js_get (cache m) keyArgString) then (Inr (js_get (cache m) keyArgString), m)
        else case apply_func func this arguments m of
               (Inl e, m1) \<Rightarrow> (Inl e, m1)
             | (Inr v, m1) \<Rightarrow> (Inr v, m1\<lparr>cache := js_put (cache m1) keyArgString v\<rparr>))"

text \<open>Two calls in a row on a fresh memoized function, and the number of times the
  underlying function ran.\<close>

definition memoized_twice :: "'s js_function \<Rightarrow> 's \<Rightarrow> jsval \<times> jsval list \<Rightarrow> jsval \<times> jsval list \<Rightarrow> (js_error + jsval) \<times> (js_error + jsval) \<times> nat" where
  "memoized_twice func s0 call1 call2 =
     (case memoized func (fst call1) (snd call1) (memoize s0) of
        (r1, m1) \<Rightarrow>
          (case memoized func (fst call2) (snd call2) m1 of
             (r2, m2) \<Rightarrow> (r1, r2, length (invocations m2))))"

section \<open>retry\<close>

text \<open>
  The deferred is jQuery's \<^verbatim>\<open>$.Deferred()\<close>, which the host page supplies: it settles
  once, and a later \<^verbatim>\<open>resolve\<close> or \<^verbatim>\<open>reject\<close> leaves its state alone. \<open>calls\<close>
  records every \<^verbatim>\<open>resolve\<close> and \<^verbatim>\<open>reject\<close> made on it, \<open>Reject\<close> with the list of
  the arguments it was given.
\<close>

datatype 'a settle = Resolve 'a | Reject "'a list"

datatype 'a deferred_state = Pending | Resolved 'a | Rejected "'a list"

record 'a deferred =
  state :: "'a deferred_state"
  calls :: "'a settle list"

definition Deferred :: "'a deferred" where
  "Deferred = \<lparr>state = Pending, calls = []\<rparr>"

definition resolve :: "'a \<Rightarrow> 'a deferred \<Rightarrow> 'a deferred" where
  "resolve v d =
     \<lparr>state = (if state d = Pending then Resolved v else state d), calls = calls d @ [Resolve v]\<rparr>"

definition reject :: "'a list \<Rightarrow> 'a deferred \<Rightarrow> 'a deferred" where
  "reject args d =
     \<lparr>state = (if state d = Pending then Rejected args else state d), calls = calls d @ [Reject args]\<rparr>"

text \<open>
  The function to retry takes no argument and has a state of its own, so it is given by
  what its invocations do, counted from 0: raise, or return a value. The host also tells
  whether \<^verbatim>\<open>document.readyState\<close> is \<^verbatim>\<open>'complete'\<close> when the \<^verbatim>\<open>catch\<close> block of an
  invocation reads it.
\<close>

datatype 'a outcome = Raises | Returns 'a

record 'a host =
  func :: "nat \<Rightarrow> 'a outcome"
  complete_at :: "nat \<Rightarrow> bool"

record 'a retry_data =
  attemptsLeft :: int
  delay :: int
  deferred :: "'a deferred"
  afterLoad :: bool
  timeout :: "nat option"

text \<open>What one run of the inner \<^verbatim>\<open>retry\<close> leaves behind: nothing, a timer of the given
  delay, or a one-shot listener for the \<^verbatim>\<open>load\<close> event.\<close>

datatype pending = Finished | Timer int | Load

text \<open>
  The inner function \<^verbatim>\<open>retry(data)\<close>, run as invocation number \<open>n\<close> of the function.
  After the \<^verbatim>\<open>try\<close> block has resolved the deferred, control leaves the
  \<^verbatim>\<open>try\<close> statement and reaches \<^verbatim>\<open>data.deferred.reject()\<close>; the two \<^verbatim>\<open>return\<close>s are
  in the \<^verbatim>\<open>catch\<close> block only. The handle of the timer set by invocation \<open>n\<close> is
  \<open>n + 1\<close>.
\<close>

definition retry_inner :: "'a host \<Rightarrow> nat \<Rightarrow> 'a retry_data \<Rightarrow> pending \<times> 'a retry_data" where
  "retry_inner h n data0 =
     (let data = data0\<lparr>attemptsLeft := attemptsLeft data0 - 1\<rparr> in
      case func h n of
        Returns result \<Rightarrow>
          (Finished, data\<lparr>deferred := reject [] (resolve result (deferred data))\<rparr>)
      | Raises \<Rightarrow>
          if afterLoad data \<and> \<not> complete_at h n then (Load, data)
          else if attemptsLeft data > 0 then (Timer (delay data), data\<lparr>timeout := Some (n + 1)\<rparr>)
          else (Finished, data\<lparr>deferred := reject [] (deferred data)\<rparr>))"

text \<open>
  The sequence of runs: the first one is made by the call of \<^verbatim>\<open>retry\<close>, each later one
  by the timer or the load event the run before it left pending. \<open>fuel\<close> bounds the
  number of runs the host makes; \<open>None\<close> is a sequence still waiting when the host
  stops. The result is the final data, the number of invocations of the function, and
  what each run but the last waited for.
\<close>

fun retry_runs :: "'a host \<Rightarrow> nat \<Rightarrow> nat \<Rightarrow> pending list \<Rightarrow> 'a retry_data \<Rightarrow> ('a retry_data \<times> nat \<times> pending list) option" where
  "retry_runs h 0 n waits data = None"
| "retry_runs h (Suc fuel) n waits data =
     (case retry_inner h n data of
        (Finished, data1) \<Rightarrow> Some (data1, Suc n, waits)
      | (w, data1) \<Rightarrow> retry_runs h fuel (Suc n) (waits @ [w]) data1)"

text \<open>\<^verbatim>\<open>a || b\<close> on an optional number: \<^verbatim>\<open>undefined\<close> and 0 give the default.\<close>

definition or_default :: "int option \<Rightarrow> int \<Rightarrow> int" where
  "or_default a d = (case a of None \<Rightarrow> d | Some v \<Rightarrow> if v = 0 then d else v)"

definition defaultAttempts :: int where
  "defaultAttempts = 5"

definition defaultDelay :: int where
  "defaultDelay = 100"

text \<open>\<^verbatim>\<open>retry(functionToRetry, afterLoad, attempts, delay)\<close>; \<open>complete\<close> tells whether
  the document is already loaded at the call, \<open>afterLoadArg\<close> is the truthiness of the
  second argument.\<close>

definition retry :: "'a host \<Rightarrow> bool \<Rightarrow> bool \<Rightarrow> int option \<Rightarrow> int option \<Rightarrow> nat \<Rightarrow> ('a retry_data \<times> nat \<times> pending list) option" where
  "retry h complete afterLoadArg attempts delayArg fuel =
     retry_runs h fuel 0 []
       \<lparr>attemptsLeft = or_default attempts defaultAttempts,
        delay = or_default delayArg defaultDelay,
        deferred = Deferred,
        afterLoad = (if complete then False else afterLoadArg),
        timeout = None\<rparr>"

text \<open>A function that raises on its first \<open>k\<close> invocations and then returns \<open>v\<close>, in a
  document that is loaded.\<close>

definition fails_then :: "nat \<Rightarrow> 'a \<Rightarrow> 'a host" where
  "fails_then k v = \<lparr>func = (\<lambda>n. if n < k then Raises else Returns v), complete_at = (\<lambda>n. True)\<rparr>"


section \<open>override\<close>

text \<open>
  A function takes a receiver and an argument list, and may have a state of its own
  (\<open>'s\<close>). The state record that the wrapper builds holds \<^verbatim>\<open>original\<close>, \<^verbatim>\<open>thisArg\<close>
  and \<^verbatim>\<open>argsAsArray\<close>; its two closures \<^verbatim>\<open>callOverridden\<close> and \<^verbatim>\<open>callOriginal\<close> are
  the two call steps below.
\<close>

type_synonym ('t, 'a, 'r, 's) func = "'t \<Rightarrow> 'a list \<Rightarrow> 's \<Rightarrow> 'r \<times> 's"













section \<open>ajax\<close>

text \<open>
  The request object as the completion handlers read it when an event fires: \<^verbatim>\<open>status\<close>
  is \<open>Undefined\<close> on a transport without that field, \<^verbatim>\<open>response\<close> and
  \<^verbatim>\<open>responseText\<close> are a value or missing, \<open>handle\<close> is the identity of the object.
\<close>

record request =
  handle :: nat
  status :: jsval
  response :: jsval
  responseText :: jsval
  readyState :: nat

datatype event = onload | onreadystatechange | onerror | ontimeout | onabort

text \<open>The callback is any function: given the number of times it has run before and
  its three arguments, it returns or raises.\<close>

datatype completion = Normal | Abrupt

type_synonym callback = "nat \<Rightarrow> jsval \<Rightarrow> jsval \<Rightarrow> request \<Rightarrow> completion"

record ajax_state =
  called :: bool
  received :: "(jsval \<times> jsval \<times> request) list"

definition js_or :: "jsval \<Rightarrow> jsval \<Rightarrow> jsval" where
  "js_or a b = (if truthy a then a else b)"

text \<open>
  The handler \<^verbatim>\<open>cb(statusCode, responseText)\<close>. The assignment \<^verbatim>\<open>called = true\<close>
  follows the call of the callback, so it is not reached when the callback raises.
\<close>

definition cb :: "callback \<Rightarrow> jsval \<Rightarrow> jsval \<Rightarrow> request \<Rightarrow> ajax_state \<Rightarrow> ajax_state" where
  "cb callback statusCode responseTextArg req st =
     (if \<not> called st then
        let a1 = (if status req = Undefined then statusCode else status req);
            a2 = js_or (js_or (response req) (responseText req)) responseTextArg;
            st1 = st\<lparr>received := received st @ [(a1, a2, req)]\<rparr>
        in case callback (length (received st)) a1 a2 req of
             Abrupt \<Rightarrow> st1
           | Normal \<Rightarrow> st1\<lparr>called := True\<rparr>
      else st\<lparr>called := True\<rparr>)"

text \<open>The handlers that \<^verbatim>\<open>ajax\<close> installs on the request, run on an event with the
  request as it is then.\<close>

fun dispatch :: "callback \<Rightarrow> ajax_state \<Rightarrow> event \<times> request \<Rightarrow> ajax_state" where
  "dispatch callback st (onload, req) = cb callback (Num (number 200)) Undefined req st"
| "dispatch callback st (onreadystatechange, req) =
     (if readyState req = 4 then cb callback (Num (number 200)) Undefined req st else st)"
| "dispatch callback st (onerror, req) = cb callback Null (Str ''Error'') req st"
| "dispatch callback st (ontimeout, req) = cb callback Null (Str ''Timeout'') req st"
| "dispatch callback st (onabort, req) = cb callback Null (Str ''Abort'') req st"

text \<open>A call of \<^verbatim>\<open>ajax\<close> followed by the events of the transport: \<^verbatim>\<open>called\<close> starts
  false.\<close>

definition ajax :: "callback \<Rightarrow> (event \<times> request) list \<Rightarrow> ajax_state" where
  "ajax callback events = foldl (dispatch callback) \<lparr>called = False, received = []\<rparr> events"

text \<open>An event that reports completion: every one but a \<^verbatim>\<open>readystatechange\<close> before
  the done state.\<close>

fun completes :: "event \<times> request \<Rightarrow> bool" where
  "completes (onreadystatechange, req) = (readyState req = 4)"
| "completes (e, req) = True"

text \<open>The sentinel of a failure path.\<close>

fun sentinel :: "event \<Rightarrow> string" where
  "sentinel onerror = ''Error''"
| "sentinel ontimeout = ''Timeout''"
| "sentinel onabort = ''Abort''"
| "sentinel onload = []"
| "sentinel onreadystatechange = []"

definition done_request :: request where
  "done_request = \<lparr>handle = 1, status = Num (number 200), response = Undefined,
                    responseText = Str ''ok'', readyState = 4\<rparr>"

definition raising_callback :: callback where
  "raising_callback n a1 a2 req = Abrupt"

section \<open>throttle and debounce\<close>

text \<open>
  The function given to \<^verbatim>\<open>setTimeout\<close>: the \<^verbatim>\<open>onTimeout\<close> of \<^verbatim>\<open>debounce\<close>, which
  captures nothing of the wrapper call, or the anonymous function of \<^verbatim>\<open>throttle\<close>, which
  captures \<^verbatim>\<open>self\<close> and \<^verbatim>\<open>args\<close>.
\<close>

datatype ('t, 'a) timer_function = DebounceOnTimeout | ThrottleOnTimeout 't "'a list"

text \<open>
  The closure variable \<^verbatim>\<open>timeout\<close> of one wrapper together with the timers of the host:
  handles are positive numbers, \<open>timers\<close> holds the pending ones, \<open>applied\<close> records the
  receiver and arguments of each call of the wrapped function.
\<close>

record ('t, 'a) timing =
  timeout_var :: "nat option"
  next_handle :: nat
  timers :: "nat \<rightharpoonup> int \<times> ('t, 'a) timer_function"
  applied :: "('t \<times> 'a list) list"

definition new_timing :: "('t, 'a) timing" where
  "new_timing = \<lparr>timeout_var = None, next_handle = 1, timers = Map.empty, applied = []\<rparr>"

definition setTimeout :: "('t, 'a) timer_function \<Rightarrow> int \<Rightarrow> ('t, 'a) timing \<Rightarrow> nat \<times> ('t, 'a) timing" where
  "setTimeout f ms w =
     (next_handle w, w\<lparr>next_handle := next_handle w + 1, timers := (timers w)(next_handle w \<mapsto> (ms, f))\<rparr>)"

definition clearTimeout :: "nat \<Rightarrow> ('t, 'a) timing \<Rightarrow> ('t, 'a) timing" where
  "clearTimeout h w = w\<lparr>timers := (timers w)(h := None)\<rparr>"

text \<open>The tests \<^verbatim>\<open>if (timeout)\<close> and \<^verbatim>\<open>if (!timeout)\<close>: \<^verbatim>\<open>undefined\<close> is falsy, and so
  would be a handle 0.\<close>

definition pending_timeout :: "('t, 'a) timing \<Rightarrow> bool" where
  "pending_timeout w = (case timeout_var w of None \<Rightarrow> False | Some h \<Rightarrow> h \<noteq> 0)"

text \<open>The wrapper returned by \<^verbatim>\<open>debounce(func, duration)\<close>, called with a receiver and
  arguments.\<close>

definition debounced :: "int \<Rightarrow> 't \<Rightarrow> 'a list \<Rightarrow> ('t, 'a) timing \<Rightarrow> ('t, 'a) timing" where
  "debounced duration this arguments w =
     (let w1 = (case timeout_var w of
                  None \<Rightarrow> w
                | Some h \<Rightarrow> if h \<noteq> 0 then clearTimeout h w else w)
      in case setTimeout DebounceOnTimeout duration w1 of
           (h, w2) \<Rightarrow> w2\<lparr>timeout_var := Some h\<rparr>)"

text \<open>The wrapper returned by \<^verbatim>\<open>throttle(func, throttleAmount)\<close>.\<close>

definition throttled :: "int \<Rightarrow> 't \<Rightarrow> 'a list \<Rightarrow> ('t, 'a) timing \<Rightarrow> ('t, 'a) timing" where
  "throttled throttleAmount this arguments w =
     (if \<not> pending_timeout w then
        (let self = this; args = arguments
         in case setTimeout (ThrottleOnTimeout self args) throttleAmount w of
              (h, w1) \<Rightarrow> w1\<lparr>timeout_var := Some h\<rparr>)
      else w)"

text \<open>
  The host runs a pending timer: it calls the timer function with its own receiver
  \<open>hostThis\<close> (the window) and no arguments, since \<^verbatim>\<open>setTimeout\<close> was given none to
  pass on. Both timer functions set \<^verbatim>\<open>timeout\<close> to \<^verbatim>\<open>undefined\<close> and then apply the
  wrapped function: \<^verbatim>\<open>onTimeout\<close> to its own \<^verbatim>\<open>this\<close> and \<^verbatim>\<open>arguments\<close>, the function
  of \<^verbatim>\<open>throttle\<close> to the captured \<^verbatim>\<open>self\<close> and \<^verbatim>\<open>args\<close>.
\<close>

definition fire :: "nat \<Rightarrow> 't \<Rightarrow> ('t, 'a) timing \<Rightarrow> ('t, 'a) timing" where
  "fire h hostThis w =
     (case timers w h of
        None \<Rightarrow> w
      | Some (ms, DebounceOnTimeout) \<Rightarrow>
          w\<lparr>timers := (timers w)(h := None), timeout_var := None,
            applied := applied w @ [(hostThis, [])]\<rparr>
      | Some (ms, ThrottleOnTimeout self args) \<Rightarrow>
          w\<lparr>timers := (timers w)(h := None), timeout_var := None,
            applied := applied w @ [(self, args)]\<rparr>)"

section \<open>Example inputs\<close>

text \<open>Functions to memoize: one that returns \<^verbatim>\<open>undefined\<close>, one that returns 0, one
  that returns 7.\<close>

definition returns_undefined :: "unit js_function" where
  "returns_undefined this arguments s = (Inr Undefined, s)"

definition returns_zero :: "unit js_function" where
  "returns_zero this arguments s = (Inr (Num (number 0)), s)"

definition returns_seven :: "unit js_function" where
  "returns_seven this arguments s = (Inr (Num (number 7)), s)"



section \<open>Properties of the geometry helpers\<close>

lemma findClosestScrollable_loop_find:
  "findClosestScrollable_loop p = List.find scrollable (ancestors_from p)"
  by (induction p rule: findClosestScrollable_loop.induct) (simp_all add: scrollable_def)

lemma findClosestScrollableOffsetParent_find:
  "findClosestScrollableOffsetParent el = List.find scrollable (offsetAncestors el)"
  by (simp add: findClosestScrollableOffsetParent_def offsetAncestors_def
      findClosestScrollable_loop_find)


lemma offset_low_item:
  "offset low_item =
     \<lparr>pageLeft = 0, pageTop = 610, elOffsetLeft = 0, elOffsetTop = 510,
      windowLeft = 0, windowTop = 610, width = 100, height = 20\<rparr>"
  by (simp add: offset_def low_item_def panel_def page_def)


text \<open>
  Claim C10. When the element is at least partially out of view, \<^verbatim>\<open>scrollY\<close> assigns the
  \<^verbatim>\<open>scrollTop\<close> of the nearest offset ancestor whose \<^verbatim>\<open>scrollHeight\<close> exceeds its
  \<^verbatim>\<open>offsetHeight\<close>, or of \<^verbatim>\<open>document.body\<close> when there is none. The \<^verbatim>\<open>scrollElement\<close>
  argument has no influence, and every element other than the computed one keeps its
  \<^verbatim>\<open>scrollTop\<close>, the caller's container included.
\<close>

theorem scrollY_ignores_scrollElement:
  assumes "isOutOfView doc el True"
  shows "map_option fst (scrollY doc el padding scrollElement) = Some (nearestScrollableOrBody doc el)
    \<and> (\<forall>other. scrollY doc el padding scrollElement = scrollY doc el padding other)
    \<and> (\<forall>e. nid (props e) \<noteq> nid (props (nearestScrollableOrBody doc el)) \<longrightarrow>
            scrollTop_after (scrollY doc el padding scrollElement) e = scrollTop (props e))"
  using assms
  by (simp add: scrollY_def Let_def nearestScrollableOrBody_def
      findClosestScrollableOffsetParent_find scrollTop_after_def)

lemma nearestScrollableOrBody_low_item: "nearestScrollableOrBody viewport low_item = page"
  by (simp add: nearestScrollableOrBody_def offsetAncestors_def low_item_def panel_def page_def
      scrollable_def)

theorem scrollY_ignores_scrollElement_witness:
  "isOutOfView viewport low_item True
   \<and> map_option fst (scrollY viewport low_item (Some 5) (Some panel)) = Some page
   \<and> scrollTop_after (scrollY viewport low_item (Some 5) (Some panel)) panel = 0"
proof -
  have out: "isOutOfView viewport low_item True"
    by (simp add: isOutOfView_def offset_low_item viewport_def)
  have ids: "nid (props panel) \<noteq> nid (props page)"
    by (simp add: panel_def page_def)
  have top: "scrollTop (props panel) = 0"
    by (simp add: panel_def)
  note main = scrollY_ignores_scrollElement [OF out, of "Some 5" "Some panel",
      unfolded nearestScrollableOrBody_low_item]
  have target: "map_option fst (scrollY viewport low_item (Some 5) (Some panel)) = Some page"
    by (rule conjunct1 [OF main])
  have frame: "scrollTop_after (scrollY viewport low_item (Some 5) (Some panel)) panel
                 = scrollTop (props panel)"
    using conjunct2 [OF conjunct2 [OF main]] ids by blast
  show ?thesis
    using out target frame top by (simp only: simp_thms)
qed

text \<open>
  Claim C7. \<^verbatim>\<open>concatUrls("a/", "/b", "c/")\<close> is \<^verbatim>\<open>"a/b/c"\<close>; a list of fragments given
  as one array gives what the same fragments give as separate arguments, an empty list
  raising the same error both ways; so \<^verbatim>\<open>concatUrls(["a","b"])\<close> and
  \<^verbatim>\<open>concatUrls("a","b")\<close> agree.
\<close>

theorem concatUrls_array_or_arguments:
  "concatUrls [Fragment ''a/'', Fragment ''/b'', Fragment ''c/''] = Inr ''a/b/c''
   \<and> (\<forall>fs. concatUrls [Fragments fs] = concatUrls (map Fragment fs))
   \<and> concatUrls [Fragments [''a'', ''b'']] = concatUrls [Fragment ''a'', Fragment ''b'']"
proof (intro conjI allI)
  show "concatUrls [Fragment ''a/'', Fragment ''/b'', Fragment ''c/''] = Inr ''a/b/c''"
    by (simp add: concatUrls_def append_fragment_def trim_def char_at_def js_space_def)
next
  fix fs
  show "concatUrls [Fragments fs] = concatUrls (map Fragment fs)"
    by (cases fs) (simp_all add: concatUrls_def)
next
  show "concatUrls [Fragments [''a'', ''b'']] = concatUrls [Fragment ''a'', Fragment ''b'']"
    by (simp add: concatUrls_def)
qed

section \<open>Properties of retry\<close>

text \<open>A function that raises \<open>m\<close> times and then returns \<open>v\<close>, with more than \<open>m\<close>
  attempts left and \<^verbatim>\<open>afterLoad\<close> off: the sequence ends at invocation \<open>m + 1\<close>, having
  waited \<open>m\<close> times on the timer, and its last run calls \<^verbatim>\<open>resolve(v)\<close> and then
  \<^verbatim>\<open>reject()\<close>.\<close>

lemma retry_runs_succeeds:
  assumes "\<forall>k<m. func h (n + k) = Raises"
    and "func h (n + m) = Returns v"
    and "\<not> afterLoad data"
    and "int m < attemptsLeft data"
    and "m < fuel"
  shows "\<exists>data1. retry_runs h fuel n ws data
                    = Some (data1, n + m + 1, ws @ replicate m (Timer (delay data)))
           \<and> deferred data1 = reject [] (resolve v (deferred data))"
  using assms
proof (induction m arbitrary: n ws data fuel)
  case 0
  then obtain f where "fuel = Suc f" by (cases fuel) auto
  with 0 show ?case by (simp add: retry_inner_def Let_def)
next
  case (Suc m)
  then obtain f where f: "fuel = Suc f" by (cases fuel) auto
  let ?d = "data\<lparr>attemptsLeft := attemptsLeft data - 1, timeout := Some (n + 1)\<rparr>"
  from Suc.prems(1) have raises: "func h n = Raises"
    by (metis add.right_neutral zero_less_Suc)
  have step: "retry_inner h n data = (Timer (delay data), ?d)"
    using Suc.prems raises by (simp add: retry_inner_def Let_def)
  have "\<exists>data1. retry_runs h f (Suc n) (ws @ [Timer (delay data)]) ?d
            = Some (data1, Suc n + m + 1,
                    (ws @ [Timer (delay data)]) @ replicate m (Timer (delay ?d)))
           \<and> deferred data1 = reject [] (resolve v (deferred ?d))"
  proof (rule Suc.IH)
    show "\<forall>k<m. func h (Suc n + k) = Raises"
      using Suc.prems(1) by (metis Suc_less_eq add_Suc_shift)
    show "func h (Suc n + m) = Returns v" using Suc.prems(2) by simp
    show "\<not> afterLoad ?d" using Suc.prems(3) by simp
    show "int m < attemptsLeft ?d" using Suc.prems(4) by simp
    show "m < f" using Suc.prems(5) f by simp
  qed
  then show ?case using step f by (simp add: replicate_app_Cons_same)
qed

text \<open>So a function that fails \<open>N - 1\<close> times and returns \<open>v\<close> the \<open>N\<close>th time, \<open>N\<close> at
  most the configured attempts, is invoked exactly \<open>N\<close> times and leaves the deferred
  resolved with \<open>v\<close>; the calls made on the deferred are \<^verbatim>\<open>resolve(v)\<close> followed by
  \<^verbatim>\<open>reject()\<close>.\<close>

lemma retry_succeeds_on_nth:
  assumes "\<forall>k<m. func h k = Raises"
    and "func h m = Returns v"
    and "complete \<or> \<not> afterLoadArg"
    and "int m < or_default attempts defaultAttempts"
    and "m < fuel"
  shows "\<exists>d. retry h complete afterLoadArg attempts delayArg fuel
               = Some (d, m + 1, replicate m (Timer (or_default delayArg defaultDelay)))
           \<and> state (deferred d) = Resolved v
           \<and> calls (deferred d) = [Resolve v, Reject []]"
proof -
  let ?data = "\<lparr>attemptsLeft = or_default attempts defaultAttempts,
                 delay = or_default delayArg defaultDelay,
                 deferred = Deferred,
                 afterLoad = (if complete then False else afterLoadArg),
                 timeout = None\<rparr> :: 'a retry_data"
  have "\<exists>data1. retry_runs h fuel 0 [] ?data
                    = Some (data1, 0 + m + 1, [] @ replicate m (Timer (delay ?data)))
           \<and> deferred data1 = reject [] (resolve v (deferred ?data))"
  proof (rule retry_runs_succeeds)
    show "\<forall>k<m. func h (0 + k) = Raises" using assms(1) by simp
    show "func h (0 + m) = Returns v" using assms(2) by simp
    show "\<not> afterLoad ?data" using assms(3) by auto
    show "int m < attemptsLeft ?data" using assms(4) by simp
    show "m < fuel" by (rule assms(5))
  qed
  then show ?thesis
    by (auto simp add: retry_def Deferred_def resolve_def reject_def)
qed

text \<open>The same without the condition on \<^verbatim>\<open>afterLoad\<close>: a failed run then waits for the
  timer or for the load event, and the host starts the next run either way.\<close>

lemma retry_inner_raises:
  assumes "func h n = Raises" and "1 < attemptsLeft data"
  shows "\<exists>w d. retry_inner h n data = (w, d) \<and> w \<noteq> Finished
           \<and> attemptsLeft d = attemptsLeft data - 1 \<and> deferred d = deferred data"
  using assms by (simp add: retry_inner_def Let_def)

lemma retry_runs_pending:
  assumes "retry_inner h n data = (w, d)" and "w \<noteq> Finished"
  shows "retry_runs h (Suc fuel) n ws data = retry_runs h fuel (Suc n) (ws @ [w]) d"
  using assms by (cases w) simp_all

lemma retry_runs_succeeds_any_wait:
  assumes "\<forall>k<m. func h (n + k) = Raises"
    and "func h (n + m) = Returns v"
    and "int m < attemptsLeft data"
    and "m < fuel"
  shows "\<exists>data1 ws1. retry_runs h fuel n ws data = Some (data1, n + m + 1, ws @ ws1)
           \<and> length ws1 = m
           \<and> deferred data1 = reject [] (resolve v (deferred data))"
  using assms
proof (induction m arbitrary: n ws data fuel)
  case 0
  then obtain f where "fuel = Suc f" by (cases fuel) auto
  with 0 show ?case by (simp add: retry_inner_def Let_def)
next
  case (Suc m)
  then obtain f where f: "fuel = Suc f" by (cases fuel) auto
  from Suc.prems(1) have raises: "func h n = Raises"
    by (metis add.right_neutral zero_less_Suc)
  from Suc.prems(3) have "1 < attemptsLeft data" by simp
  from retry_inner_raises [OF raises this]
  obtain w d where step: "retry_inner h n data = (w, d)" and w: "w \<noteq> Finished"
    and left: "attemptsLeft d = attemptsLeft data - 1" and same: "deferred d = deferred data"
    by blast
  have "\<exists>data1 ws1. retry_runs h f (Suc n) (ws @ [w]) d
            = Some (data1, Suc n + m + 1, (ws @ [w]) @ ws1)
           \<and> length ws1 = m
           \<and> deferred data1 = reject [] (resolve v (deferred d))"
  proof (rule Suc.IH)
    show "\<forall>k<m. func h (Suc n + k) = Raises"
      using Suc.prems(1) by (metis Suc_less_eq add_Suc_shift)
    show "func h (Suc n + m) = Returns v" using Suc.prems(2) by simp
    show "int m < attemptsLeft d" using Suc.prems(3) left by simp
    show "m < f" using Suc.prems(4) f by simp
  qed
  then obtain data1 ws1 where
    run: "retry_runs h f (Suc n) (ws @ [w]) d = Some (data1, Suc n + m + 1, (ws @ [w]) @ ws1)"
    and len: "length ws1 = m"
    and def: "deferred data1 = reject [] (resolve v (deferred d))"
    by blast
  have "retry_runs h fuel n ws data = Some (data1, n + Suc m + 1, ws @ (w # ws1))"
    using retry_runs_pending [OF step w, of f ws] run f by simp
  moreover have "length (w # ws1) = Suc m" using len by simp
  moreover have "deferred data1 = reject [] (resolve v (deferred data))" using def same by simp
  ultimately show ?case by blast
qed

lemma retry_succeeds_on_nth_any_wait:
  assumes "\<forall>k<m. func h k = Raises"
    and "func h m = Returns v"
    and "int m < or_default attempts defaultAttempts"
    and "m < fuel"
  shows "\<exists>d ws. retry h complete afterLoadArg attempts delayArg fuel = Some (d, m + 1, ws)
           \<and> length ws = m
           \<and> state (deferred d) = Resolved v
           \<and> calls (deferred d) = [Resolve v, Reject []]"
proof -
  let ?data = "\<lparr>attemptsLeft = or_default attempts defaultAttempts,
                 delay = or_default delayArg defaultDelay,
                 deferred = Deferred,
                 afterLoad = (if complete then False else afterLoadArg),
                 timeout = None\<rparr> :: 'a retry_data"
  have "\<exists>data1 ws1. retry_runs h fuel 0 [] ?data = Some (data1, 0 + m + 1, [] @ ws1)
           \<and> length ws1 = m
           \<and> deferred data1 = reject [] (resolve v (deferred ?data))"
  proof (rule retry_runs_succeeds_any_wait)
    show "\<forall>k<m. func h (0 + k) = Raises" using assms(1) by simp
    show "func h (0 + m) = Returns v" using assms(2) by simp
    show "int m < attemptsLeft ?data" using assms(3) by simp
    show "m < fuel" by (rule assms(4))
  qed
  then show ?thesis
    by (auto simp add: retry_def Deferred_def resolve_def reject_def)
qed

text \<open>
  Claim C1. The function fails twice and returns 42 the third time, with three attempts
  configured: it is invoked exactly three times and the deferred is resolved with 42, but
  the run that resolved it goes on to call \<^verbatim>\<open>reject()\<close> on the same deferred.
\<close>

theorem retry_rejects_after_resolving:
  "retry (fails_then 2 (42::int)) True False (Some 3) None 3 =
     Some (\<lparr>attemptsLeft = 0, delay = 100,
            deferred = \<lparr>state = Resolved 42, calls = [Resolve 42, Reject []]\<rparr>,
            afterLoad = False, timeout = Some 2\<rparr>,
           3, [Timer 100, Timer 100])"
  by (simp add: retry_def retry_inner_def fails_then_def or_default_def defaultDelay_def
      Deferred_def resolve_def reject_def numeral_3_eq_3 Let_def)



section \<open>Properties of override\<close>






section \<open>Properties of ajax\<close>

lemma cb_called: "called st \<Longrightarrow> cb callback a b req st = st"
  by (simp add: cb_def)

lemma dispatch_called: "called st \<Longrightarrow> dispatch callback st ev = st"
  by (cases ev; cases "fst ev") (auto simp add: cb_called)

lemma foldl_dispatch_called: "called st \<Longrightarrow> foldl (dispatch callback) st evs = st"
  by (induction evs) (simp_all add: dispatch_called)

lemma dispatch_first:
  assumes "completes ev" and "\<not> called st" and "\<forall>n a1 a2 req. callback n a1 a2 req = Normal"
  shows "called (dispatch callback st ev)
    \<and> length (received (dispatch callback st ev)) = Suc (length (received st))"
  using assms by (cases ev; cases "fst ev") (auto simp add: cb_def Let_def)

text \<open>With a callback that returns each time it is called, the first completion event
  calls it and no later event does.\<close>

lemma ajax_once_when_callback_returns:
  assumes "\<forall>n a1 a2 req. callback n a1 a2 req = Normal" and "completes ev"
  shows "length (received (ajax callback (ev # evs))) = 1"
proof -
  let ?st0 = "\<lparr>called = False, received = []\<rparr>"
  have "called (dispatch callback ?st0 ev)
    \<and> length (received (dispatch callback ?st0 ev)) = Suc (length (received ?st0))"
    by (rule dispatch_first) (use assms in simp_all)
  then show ?thesis
    by (simp add: ajax_def foldl_dispatch_called)
qed

lemma foldl_dispatch_received:
  "\<exists>more. received (foldl (dispatch callback) st evs) = received st @ more"
proof (induction evs arbitrary: st)
  case Nil
  show ?case by simp
next
  case (Cons ev evs)
  have "\<exists>m. received (dispatch callback st ev) = received st @ m"
    by (cases ev; cases "fst ev") (auto simp add: cb_def Let_def split: completion.splits)
  then show ?case using Cons [of "dispatch callback st ev"] by auto
qed

text \<open>On the error, timeout and abort paths, a request without a status, a response or a
  response text gives the callback \<^verbatim>\<open>null\<close>, the sentinel of the path, and the request.\<close>

lemma ajax_failure_sentinel:
  assumes "e \<in> {onerror, ontimeout, onabort}" and "status req = Undefined"
    and "\<not> truthy (response req)" and "\<not> truthy (responseText req)"
  shows "hd (received (ajax callback ((e, req) # evs))) = (Null, Str (sentinel e), req)"
proof -
  let ?st0 = "\<lparr>called = False, received = []\<rparr>"
  have first: "received (dispatch callback ?st0 (e, req)) = [(Null, Str (sentinel e), req)]"
    using assms by (auto simp add: cb_def Let_def js_or_def split: completion.splits)
  from foldl_dispatch_received [of callback "dispatch callback ?st0 (e, req)" evs] first
  show ?thesis
    by (auto simp add: ajax_def)
qed

text \<open>
  Claim C3. The callback raises. The transport reports a finished request in the usual
  way, a \<^verbatim>\<open>readystatechange\<close> in the done state followed by \<^verbatim>\<open>load\<close>: the callback is
  called by both handlers, twice in all, since the exception of the first call leaves
  \<^verbatim>\<open>called\<close> false.
\<close>

theorem ajax_calls_back_twice_when_callback_raises:
  "received (ajax raising_callback [(onreadystatechange, done_request), (onload, done_request)])
     = [(Num (number 200), Str ''ok'', done_request), (Num (number 200), Str ''ok'', done_request)]"
  by (simp add: ajax_def cb_def raising_callback_def done_request_def Let_def js_or_def)

section \<open>Properties of debounce and throttle\<close>

text \<open>
  Claim C9. After a call of the debounced wrapper with any receiver and arguments, in any
  state of the wrapper, a timer is pending, and when the host runs it the wrapped function
  is applied to the host's receiver and an empty argument list: the receiver and arguments
  of the wrapper call appear nowhere. The throttled wrapper, called while no timer is
  pending, applies the wrapped function to the receiver and arguments of that call.
\<close>

theorem debounce_discards_receiver_and_arguments:
  "(\<exists>h. timeout_var (debounced duration receiver args w) = Some h
        \<and> applied (fire h hostThis (debounced duration receiver args w))
            = applied w @ [(hostThis, [])])
   \<and> (\<exists>h. timeout_var (throttled amount receiver args (w\<lparr>timeout_var := None\<rparr>)) = Some h
        \<and> applied (fire h hostThis (throttled amount receiver args (w\<lparr>timeout_var := None\<rparr>)))
            = applied w @ [(receiver, args)])"
  by (simp add: debounced_def throttled_def setTimeout_def clearTimeout_def fire_def Let_def
      pending_timeout_def split: option.splits)

section \<open>Properties of memoize\<close>

text \<open>Where the tests of the memoized function find the first result again, two calls with
  the same key argument run the underlying function once and both return its value: under
  the keys \<^verbatim>\<open>undefined\<close> and \<^verbatim>\<open>null\<close> a result other than \<^verbatim>\<open>undefined\<close>, under any
  other key a truthy result, the key's string naming no inherited property. The entries of
  the keys \<^verbatim>\<open>undefined\<close> and \<^verbatim>\<open>null\<close> are distinct.\<close>

lemma memoize_runs_once_when_result_found:
  assumes "first_argument argsA = k" and "first_argument argsB = k"
    and "fn thisA argsA init = (Inr v, after)"
    and "k = Undefined \<or> k = Null \<longrightarrow> v \<noteq> Undefined"
    and "k \<noteq> Undefined \<and> k \<noteq> Null \<longrightarrow> truthy v \<and> Object_prototype (toString k) = None"
  shows "memoized_twice fn init (thisA, argsA) (thisB, argsB) = (Inr v, Inr v, 1)"
proof -
  consider (u) "k = Undefined" | (n) "k = Null" | (o) "k \<noteq> Undefined" "k \<noteq> Null" by blast
  then show ?thesis
  proof cases
    case u
    with assms(4) have "v \<noteq> Undefined" by simp
    then show ?thesis using u assms(1,2,3)
      by (simp add: memoized_twice_def memoized_def memoize_def apply_func_def Let_def)
  next
    case n
    with assms(4) have "v \<noteq> Undefined" by simp
    then show ?thesis using n assms(1,2,3)
      by (simp add: memoized_twice_def memoized_def memoize_def apply_func_def Let_def)
  next
    case o
    with assms(5) have tv: "truthy v" and np: "Object_prototype (toString k) = None"
      by simp_all
    have nproto: "toString k \<noteq> ''__proto__''"
      using np by (auto simp add: Object_prototype_def)
    show ?thesis using o assms(1,2,3) tv np nproto
      by (simp add: memoized_twice_def memoized_def memoize_def apply_func_def Let_def
          js_get_def js_put_def)
  qed
qed

lemma memoize_undefined_and_null_entries_distinct:
  "snd (snd (memoized_twice fn init (thisA, Undefined # restA) (thisB, Null # restB))) = 2"
  "snd (snd (memoized_twice fn init (thisA, Null # restA) (thisB, Undefined # restB))) = 2"
  by (auto simp add: memoized_twice_def memoized_def memoize_def apply_func_def Let_def
      first_argument_def split: prod.splits sum.splits)

text \<open>The paths of the keys \<^verbatim>\<open>undefined\<close> and \<^verbatim>\<open>null\<close> test the stored result with
  \<^verbatim>\<open>!== undefined\<close>, so they keep a result of 0: the function that returns 0 is run once
  by two calls with the key \<^verbatim>\<open>undefined\<close>.\<close>

lemma memoize_undefined_key_keeps_zero:
  "memoized_twice returns_zero () (Undefined, [Undefined]) (Undefined, [Undefined])
     = (Inr (Num (number 0)), Inr (Num (number 0)), 1)"
  by (simp add: memoized_twice_def memoized_def memoize_def apply_func_def returns_zero_def
      Let_def first_argument_def)

text \<open>With the key \<^verbatim>\<open>"toString"\<close> no function is ever run: the test \<^verbatim>\<open>cache[keyArgString]\<close>
  finds the method that the empty cache object inherits, and both calls return it.\<close>

lemma memoize_inherited_key_never_runs:
  "memoized_twice fn init (thisA, Str ''toString'' # restA) (thisB, Str ''toString'' # restB)
     = (Inr (Obj 2 ''function toString() { [native code] }''),
        Inr (Obj 2 ''function toString() { [native code] }''), 0)"
  by (simp add: memoized_twice_def memoized_def memoize_def Let_def first_argument_def
      js_get_def Object_prototype_def)

text \<open>
  Claim C4. Two calls with the same key argument do not always run the underlying function
  exactly once. The function that returns 0 is run by both of two calls with the key
  \<^verbatim>\<open>"a"\<close>, the test of the ordinary keys being the truthiness of the stored result. With
  the key \<^verbatim>\<open>"toString"\<close> the function is not run at all. And the function that returns
  \<^verbatim>\<open>undefined\<close> is run by both of two calls with the key \<^verbatim>\<open>undefined\<close>.
\<close>

theorem memoize_does_not_run_function_once:
  "memoized_twice returns_zero () (Undefined, [Str ''a'']) (Undefined, [Str ''a''])
     = (Inr (Num (number 0)), Inr (Num (number 0)), 2)
   \<and> memoized_twice returns_seven () (Undefined, [Str ''toString''])
       (Undefined, [Str ''toString''])
     = (Inr (Obj 2 ''function toString() { [native code] }''),
        Inr (Obj 2 ''function toString() { [native code] }''), 0)
   \<and> memoized_twice returns_undefined () (Undefined, [Undefined]) (Undefined, [Undefined])
     = (Inr Undefined, Inr Undefined, 2)"
  by (simp add: memoized_twice_def memoized_def memoize_def apply_func_def returns_undefined_def
      returns_zero_def returns_seven_def js_get_def js_put_def Object_prototype_def Let_def
      first_argument_def number.rep_eq)

section \<open>Properties of unique\<close>

lemma first_occurrences_snoc:
  "first_occurrences (xs @ [x]) =
     first_occurrences xs @ (if toString x \<in> toString ` set xs then [] else [x])"
proof -
  have idx: "[0..<length (xs @ [x])] = [0..<length xs] @ [length xs]" by simp
  have f: "filter (\<lambda>i. toString ((xs @ [x]) ! i) \<notin> toString ` set (take i (xs @ [x])))
             [0..<length xs]
         = filter (\<lambda>i. toString (xs ! i) \<notin> toString ` set (take i xs)) [0..<length xs]"
    by (rule filter_cong) (auto simp add: nth_append)
  have m: "map (\<lambda>i. (xs @ [x]) ! i)
             (filter (\<lambda>i. toString (xs ! i) \<notin> toString ` set (take i xs)) [0..<length xs])
         = map (\<lambda>i. xs ! i)
             (filter (\<lambda>i. toString (xs ! i) \<notin> toString ` set (take i xs)) [0..<length xs])"
    by (rule map_cong) (auto simp add: nth_append)
  show ?thesis
    unfolding first_occurrences_def idx filter_append map_append f m
    by simp
qed

text \<open>The loop invariant: the own properties of \<^verbatim>\<open>cache\<close> are the keys of the elements
  seen so far, and \<^verbatim>\<open>uniqueArray\<close> holds their first occurrences.\<close>

lemma unique_loop_first_occurrences:
  assumes "dom seen = toString ` set pre"
    and "acc = first_occurrences pre"
    and "''hasOwnProperty'' \<notin> toString ` set (pre @ rest)"
    and "''__proto__'' \<notin> toString ` set (pre @ rest)"
  shows "unique_loop seen acc rest = Inr (first_occurrences (pre @ rest))"
  using assms
proof (induction rest arbitrary: seen acc pre)
  case Nil
  then show ?case by simp
next
  case (Cons val rest)
  have inherited: "seen ''hasOwnProperty'' = None"
    using Cons.prems(1,3) by (metis UnCI domIff image_Un set_append)
  have plain: "toString val \<noteq> ''__proto__''"
    using Cons.prems(4) by auto
  show ?case
  proof (cases "seen (toString val) = None")
    case True
    then have new: "toString val \<notin> toString ` set pre"
      using Cons.prems(1) by (metis domIff)
    have "unique_loop (seen(toString val \<mapsto> Bool True)) (acc @ [val]) rest
            = Inr (first_occurrences ((pre @ [val]) @ rest))"
    proof (rule Cons.IH)
      show "dom (seen(toString val \<mapsto> Bool True)) = toString ` set (pre @ [val])"
        using Cons.prems(1) by auto
      show "acc @ [val] = first_occurrences (pre @ [val])"
        using Cons.prems(2) new by (simp add: first_occurrences_snoc)
      show "''hasOwnProperty'' \<notin> toString ` set ((pre @ [val]) @ rest)"
        using Cons.prems(3) by simp
      show "''__proto__'' \<notin> toString ` set ((pre @ [val]) @ rest)"
        using Cons.prems(4) by simp
    qed
    then show ?thesis using True inherited plain
      by (simp add: js_call_hasOwnProperty_def js_put_def)
  next
    case False
    then have old: "toString val \<in> toString ` set pre"
      using Cons.prems(1) by (metis domIff)
    have "unique_loop seen acc rest = Inr (first_occurrences ((pre @ [val]) @ rest))"
    proof (rule Cons.IH)
      show "dom seen = toString ` set (pre @ [val])"
        using Cons.prems(1) old by auto
      show "acc = first_occurrences (pre @ [val])"
        using Cons.prems(2) old by (simp add: first_occurrences_snoc)
      show "''hasOwnProperty'' \<notin> toString ` set ((pre @ [val]) @ rest)"
        using Cons.prems(3) by simp
      show "''__proto__'' \<notin> toString ` set ((pre @ [val]) @ rest)"
        using Cons.prems(4) by simp
    qed
    then show ?thesis using False inherited
      by (simp add: js_call_hasOwnProperty_def)
  qed
qed

text \<open>On an array none of whose elements has the key \<^verbatim>\<open>hasOwnProperty\<close> or
  \<^verbatim>\<open>__proto__\<close>, \<^verbatim>\<open>unique\<close> returns the first occurrence of each string-coerced key, in
  input order.\<close>

lemma unique_first_occurrences:
  assumes "''hasOwnProperty'' \<notin> toString ` set arr" and "''__proto__'' \<notin> toString ` set arr"
  shows "unique arr = Inr (first_occurrences arr)"
  unfolding unique_def
  using unique_loop_first_occurrences [of Map.empty "[]" "[]" arr] assms
  by (simp add: first_occurrences_def)

text \<open>The example of the description: the number 1 and the string \<^verbatim>\<open>"1"\<close> have the same
  key.\<close>

lemma unique_example: "unique [Num (number 1), Num (number 1), Num (number 2), Str ''1''] = Inr [Num (number 1), Num (number 2)]"
  by (simp add: unique_def js_call_hasOwnProperty_def js_put_def decimal.simps number.rep_eq)

text \<open>Two equal elements with the key \<^verbatim>\<open>__proto__\<close> are both kept, the assignment to
  \<^verbatim>\<open>cache\<close> creating no own property.\<close>

lemma unique_keeps_proto_twice:
  "unique [Str ''__proto__'', Str ''__proto__''] = Inr [Str ''__proto__'', Str ''__proto__'']"
  by (simp add: unique_def js_call_hasOwnProperty_def js_put_def)

text \<open>
  Claim C6. On the array \<^verbatim>\<open>["hasOwnProperty", "x"]\<close>, whose two elements have different
  keys, \<^verbatim>\<open>unique\<close> returns no array: the first element makes \<^verbatim>\<open>hasOwnProperty\<close> an own
  property of \<^verbatim>\<open>cache\<close> with the value \<^verbatim>\<open>true\<close>, and the test of the second element calls
  that value and raises a \<^verbatim>\<open>TypeError\<close>. The first occurrences of the keys are both
  elements.
\<close>

theorem unique_raises_on_hasOwnProperty:
  "unique [Str ''hasOwnProperty'', Str ''x''] = Inl (TypeError ''cache.hasOwnProperty is not a function'')
   \<and> first_occurrences [Str ''hasOwnProperty'', Str ''x''] = [Str ''hasOwnProperty'', Str ''x'']"
  by (simp add: unique_def js_call_hasOwnProperty_def js_put_def first_occurrences_def upt_rec)

end
